theory Spec2Isabelle
  imports Complex_Main
begin

section \<open>JavaScript numbers\<close>

text \<open>
  The numeric fields of the Mongoose documents are JavaScript Numbers that may also be
  missing (\<open>undefined\<close>). The model keeps the special values the code meets
  (\<open>undefined\<close>, \<open>NaN\<close>, the two infinities) and carries every finite value as an
  exact real: the rounding of IEEE doubles, overflow of finite arithmetic and the sign
  of zero are not modelled (a division by zero takes the zero as \<open>+0\<close>).
\<close>

datatype jsnum = Undefined | NaN | NegInfinity | Num real | Infinity

text \<open>Truthiness, as used by \<open>a || b\<close>: \<open>undefined\<close>, \<open>NaN\<close> and \<open>0\<close> are falsy.\<close>

fun truthy :: "jsnum \<Rightarrow> bool" where
  "truthy Undefined = False"
| "truthy NaN = False"
| "truthy (Num r) = (r \<noteq> 0)"
| "truthy NegInfinity = True"
| "truthy Infinity = True"

definition jor :: "jsnum \<Rightarrow> jsnum \<Rightarrow> jsnum" where
  "jor a b = (if truthy a then a else b)"

fun jneg :: "jsnum \<Rightarrow> jsnum" where
  "jneg (Num a) = Num (- a)"
| "jneg Infinity = NegInfinity"
| "jneg NegInfinity = Infinity"
| "jneg NaN = NaN"
| "jneg Undefined = NaN"

fun jadd :: "jsnum \<Rightarrow> jsnum \<Rightarrow> jsnum" where
  "jadd (Num a) (Num b) = Num (a + b)"
| "jadd (Num a) Infinity = Infinity"
| "jadd Infinity (Num b) = Infinity"
| "jadd Infinity Infinity = Infinity"
| "jadd (Num a) NegInfinity = NegInfinity"
| "jadd NegInfinity (Num b) = NegInfinity"
| "jadd NegInfinity NegInfinity = NegInfinity"
| "jadd _ _ = NaN"

definition jsub :: "jsnum \<Rightarrow> jsnum \<Rightarrow> jsnum" where
  "jsub a b = jadd a (jneg b)"

fun jmul :: "jsnum \<Rightarrow> jsnum \<Rightarrow> jsnum" where
  "jmul (Num a) (Num b) = Num (a * b)"
| "jmul (Num a) Infinity = (if a = 0 then NaN else if 0 < a then Infinity else NegInfinity)"
| "jmul (Num a) NegInfinity = (if a = 0 then NaN else if 0 < a then NegInfinity else Infinity)"
| "jmul Infinity (Num b) = (if b = 0 then NaN else if 0 < b then Infinity else NegInfinity)"
| "jmul NegInfinity (Num b) = (if b = 0 then NaN else if 0 < b then NegInfinity else Infinity)"
| "jmul Infinity Infinity = Infinity"
| "jmul Infinity NegInfinity = NegInfinity"
| "jmul NegInfinity Infinity = NegInfinity"
| "jmul NegInfinity NegInfinity = Infinity"
| "jmul _ _ = NaN"

fun jdiv :: "jsnum \<Rightarrow> jsnum \<Rightarrow> jsnum" where
  "jdiv (Num a) (Num b) =
     (if b = 0 then (if a = 0 then NaN else if 0 < a then Infinity else NegInfinity)
      else Num (a / b))"
| "jdiv (Num a) Infinity = Num 0"
| "jdiv (Num a) NegInfinity = Num 0"
| "jdiv Infinity (Num b) = (if 0 \<le> b then Infinity else NegInfinity)"
| "jdiv NegInfinity (Num b) = (if 0 \<le> b then NegInfinity else Infinity)"
| "jdiv _ _ = NaN"

fun jabs :: "jsnum \<Rightarrow> jsnum" where
  "jabs (Num a) = Num \<bar>a\<bar>"
| "jabs Infinity = Infinity"
| "jabs NegInfinity = Infinity"
| "jabs NaN = NaN"
| "jabs Undefined = NaN"

text \<open>\<open>a > b\<close>: false as soon as an operand is \<open>NaN\<close> or \<open>undefined\<close>.\<close>

fun jgt :: "jsnum \<Rightarrow> jsnum \<Rightarrow> bool" where
  "jgt (Num a) (Num b) = (b < a)"
| "jgt Infinity (Num b) = True"
| "jgt Infinity NegInfinity = True"
| "jgt (Num a) NegInfinity = True"
| "jgt _ _ = False"

text \<open>\<open>Math.min\<close> and \<open>Math.max\<close> of two arguments: \<open>NaN\<close> if an argument is not a number.\<close>

fun Math_min :: "jsnum \<Rightarrow> jsnum \<Rightarrow> jsnum" where
  "Math_min (Num a) (Num b) = Num (min a b)"
| "Math_min (Num a) Infinity = Num a"
| "Math_min Infinity (Num b) = Num b"
| "Math_min Infinity Infinity = Infinity"
| "Math_min NegInfinity (Num b) = NegInfinity"
| "Math_min NegInfinity Infinity = NegInfinity"
| "Math_min NegInfinity NegInfinity = NegInfinity"
| "Math_min (Num a) NegInfinity = NegInfinity"
| "Math_min Infinity NegInfinity = NegInfinity"
| "Math_min _ _ = NaN"

fun Math_max :: "jsnum \<Rightarrow> jsnum \<Rightarrow> jsnum" where
  "Math_max (Num a) (Num b) = Num (max a b)"
| "Math_max (Num a) NegInfinity = Num a"
| "Math_max NegInfinity (Num b) = Num b"
| "Math_max NegInfinity NegInfinity = NegInfinity"
| "Math_max Infinity (Num b) = Infinity"
| "Math_max Infinity NegInfinity = Infinity"
| "Math_max Infinity Infinity = Infinity"
| "Math_max (Num a) Infinity = Infinity"
| "Math_max NegInfinity Infinity = Infinity"
| "Math_max _ _ = NaN"

text \<open>Strict equality \<open>a === b\<close> of two such values: \<open>NaN\<close> equals nothing.\<close>

definition strictEq :: "jsnum \<Rightarrow> jsnum \<Rightarrow> bool" where
  "strictEq a b = (a \<noteq> NaN \<and> a = b)"

section \<open>Documents\<close>

text \<open>
  An \<open>ObjectId\<close> is an object; its \<open>toHexString()\<close> is a string. A document's \<open>_id\<close>
  is an ObjectId and its \<open>id\<close> (Mongoose's virtual) is the hex string of \<open>_id\<close>.
\<close>

datatype objectid = ObjectId string

fun toHexString :: "objectid \<Rightarrow> string" where
  "toHexString (ObjectId h) = h"

text \<open>
  The values met by \<open>===\<close> and \<open>_.contains\<close> on identifiers: \<open>undefined\<close>, an ObjectId
  object, a string. \<open>x === s\<close> for a string \<open>s\<close> holds only when \<open>x\<close> is the same string:
  an object is never converted.
\<close>

datatype jsval = JUndefined | JObject objectid | JString string

fun strictEqString :: "jsval \<Rightarrow> string \<Rightarrow> bool" where
  "strictEqString (JString a) s = (a = s)"
| "strictEqString (JObject p) s = False"
| "strictEqString JUndefined s = False"

text \<open>
  Times are instants in milliseconds (a \<open>Date\<close>), durations in milliseconds. The
  counters of a user (\<open>totalGames\<close>, \<open>totalMultiplayerGames\<close>, \<open>gamesWon\<close>) default
  to 0 and are only ever incremented: natural numbers. \<open>numPlayers\<close> and \<open>maxPlayers\<close>
  are integers. Of a user, the fields of authentication (\<open>password\<close>, \<open>isAnonymous\<close>,
  \<open>isAdmin\<close>) are left out; of an exercise, the texts.
\<close>

type_synonym date = int

record ingame_args =
  args_game :: "objectid option"
  args_lang :: "string option"
  args_isSinglePlayer :: bool

record user_doc =
  user_id :: objectid
  username :: string
  bestTime :: jsnum
  bestSpeed :: jsnum
  averageTime :: jsnum
  averageSpeed :: jsnum
  totalGames :: nat
  totalMultiplayerGames :: nat
  gamesWon :: nat
  isAllowedIngame :: bool
  ingameAction :: "string option"
  ingameArgs :: ingame_args
  currentGame :: "objectid option"

record lang_doc =
  lang_key :: string
  lang_name :: string
  lang_exercises :: "objectid list"

record exercise_doc =
  exercise_id :: objectid
  exercise_typeables :: jsnum

record game_doc =
  game_id :: objectid
  lang :: "string option"
  langName :: "string option"
  exercise :: "objectid option"
  isSinglePlayer :: bool
  numPlayers :: int
  maxPlayers :: int
  status :: "string option"
  statusText :: "string option"
  isJoinable :: bool
  isComplete :: bool
  isViewable :: bool
  starting :: bool
  started :: bool
  startTime :: "date option"
  creator :: "objectid option"
  winner :: "objectid option"
  winnerTime :: jsnum
  winnerSpeed :: jsnum
  players :: "objectid list"
  playerNames :: "string list"
  startingPlayers :: "objectid list"
  wasReset :: bool

text \<open>
  A result. \<open>hasCastError\<close> is the document's own state, not a field of the schema:
  it is set when the setter of a Number path has refused a value (see \<open>castFails\<close>
  below).
\<close>

record stats_doc =
  player :: objectid
  game :: objectid
  time :: jsnum
  speed :: jsnum
  typeables :: jsnum
  keystrokes :: jsnum
  percentUnproductive :: jsnum
  mistakes :: jsnum
  hasCastError :: bool

text \<open>The \<open>id\<close> virtual of a document.\<close>

definition user_idstr :: "user_doc \<Rightarrow> string" where
  "user_idstr u = toHexString (user_id u)"

definition game_idstr :: "game_doc \<Rightarrow> string" where
  "game_idstr g = toHexString (game_id g)"

section \<open>Constants\<close>

definition GAME_TIME_JOIN_CUTOFF_MS :: int where
  "GAME_TIME_JOIN_CUTOFF_MS = 5000"

definition GAME_SINGLE_PLAYER_WAIT_TIME :: int where
  "GAME_SINGLE_PLAYER_WAIT_TIME = 5"

definition GAME_MULTI_PLAYER_WAIT_TIME :: int where
  "GAME_MULTI_PLAYER_WAIT_TIME = 20"

definition GAME_DEFAULT_MAX_PLAYERS :: int where
  "GAME_DEFAULT_MAX_PLAYERS = 4"

definition CHARACTERS_PER_WORD :: jsnum where
  "CHARACTERS_PER_WORD = Num 5"

definition MILLISECONDS_PER_MINUTE :: jsnum where
  "MILLISECONDS_PER_MINUTE = Num 60000"

definition STATISTICS_VALIDATION_THRESHOLD_MS :: jsnum where
  "STATISTICS_VALIDATION_THRESHOLD_MS = Num 100"

section \<open>The timer registry \<open>gameTimeouts\<close>\<close>

text \<open>
  \<open>gameTimeouts\<close> maps a game's \<open>id\<close> to its pending timeout. A pending timeout is its
  delay and its callback; \<open>setupTiming\<close> arms two kinds of callback, each a closure over
  the game's \<open>id\<close>.
\<close>

datatype timer_callback = CloseJoining string | StartGame string

type_synonym timeouts = "string \<rightharpoonup> int \<times> timer_callback"

definition timeouts_create :: "timeouts \<Rightarrow> string \<Rightarrow> int \<Rightarrow> timer_callback \<Rightarrow> timeouts" where
  "timeouts_create T g t f = T(g \<mapsto> (t, f))"

definition timeouts_remove :: "timeouts \<Rightarrow> string \<Rightarrow> timeouts" where
  "timeouts_remove T g = T(g := None)"

section \<open>The game state machine\<close>

text \<open>The table \<open>bindings\<close> of \<open>setStatus\<close>; a status without a binding gives \<open>undefined\<close>.\<close>

definition bindings :: "string \<Rightarrow> string option" where
  "bindings s =
     (if s = ''waiting'' then Some ''Waiting''
      else if s = ''ingame'' then Some ''In game'' else None)"

definition setStatus :: "string \<Rightarrow> game_doc \<Rightarrow> game_doc" where
  "setStatus s g = g\<lparr>status := Some s, statusText := bindings s\<rparr>"

definition beginSinglePlayer :: "game_doc \<Rightarrow> game_doc" where
  "beginSinglePlayer g =
     (setStatus ''waiting'' g)
       \<lparr>isJoinable := False, isViewable := False, isComplete := False, maxPlayers := 1\<rparr>"

definition beginMultiPlayer :: "game_doc \<Rightarrow> game_doc" where
  "beginMultiPlayer g =
     (setStatus ''waiting'' g)
       \<lparr>isJoinable := True, isViewable := True, isComplete := False, isSinglePlayer := False\<rparr>"

definition start :: "game_doc \<Rightarrow> game_doc" where
  "start g =
     (setStatus ''ingame'' (g\<lparr>started := True, startingPlayers := players g\<rparr>))
       \<lparr>isJoinable := False\<rparr>"

definition finish :: "game_doc \<times> timeouts \<Rightarrow> game_doc \<times> timeouts" where
  "finish gT =
     (case gT of (g, T) \<Rightarrow>
        (g\<lparr>isComplete := True, isViewable := False, isJoinable := False\<rparr>,
         timeouts_remove T (game_idstr g)))"

text \<open>
  \<open>moment(game.startTime).diff(moment())\<close>: the milliseconds from \<open>now\<close> to the start time;
  \<open>moment(undefined)\<close> is the current instant. One reading \<open>now\<close> of the clock serves a
  whole synchronous call.
\<close>

definition timeLeft :: "date \<Rightarrow> game_doc \<Rightarrow> int" where
  "timeLeft now g = (case startTime g of None \<Rightarrow> 0 | Some s \<Rightarrow> s - now)"

definition setupTiming :: "date \<Rightarrow> game_doc \<times> timeouts \<Rightarrow> game_doc \<times> timeouts" where
  "setupTiming now gT =
     (case gT of (g, T) \<Rightarrow>
        if isJoinable g then
          (if timeLeft now g > GAME_TIME_JOIN_CUTOFF_MS then
             (g, timeouts_create T (game_idstr g)
                   (timeLeft now g - GAME_TIME_JOIN_CUTOFF_MS + 1) (CloseJoining (game_idstr g)))
           else (g\<lparr>isJoinable := False\<rparr>, T))
        else
          (if timeLeft now g > 0 then
             (g, timeouts_create T (game_idstr g) (timeLeft now g + 1) (StartGame (game_idstr g)))
           else (start g, T)))"

definition deduceGameStateSinglePlayer :: "date \<Rightarrow> game_doc \<times> timeouts \<Rightarrow> game_doc \<times> timeouts" where
  "deduceGameStateSinglePlayer now gT =
     (case gT of (g, T) \<Rightarrow>
        if \<not> started g then
          (if \<not> starting g then
             setupTiming now
               (g\<lparr>starting := True,
                  startTime := Some (now + GAME_SINGLE_PLAYER_WAIT_TIME * 1000)\<rparr>, T)
           else setupTiming now (g, T))
        else (g, T))"

definition deduceGameStateMultiPlayer :: "date \<Rightarrow> game_doc \<times> timeouts \<Rightarrow> game_doc \<times> timeouts" where
  "deduceGameStateMultiPlayer now gT =
     (case gT of (g, T) \<Rightarrow>
        if \<not> started g then
          (if starting g then
             (if numPlayers g < 2 then
                (g\<lparr>starting := False, startTime := None, isJoinable := True\<rparr>,
                 timeouts_remove T (game_idstr g))
              else setupTiming now (g, T))
           else
             (if numPlayers g > 1 then
                setupTiming now
                  (g\<lparr>starting := True,
                     startTime := Some (now + GAME_MULTI_PLAYER_WAIT_TIME * 1000)\<rparr>, T)
              else (g, T)))
        else (g, T))"

definition deduceGameState :: "date \<Rightarrow> game_doc \<times> timeouts \<Rightarrow> game_doc \<times> timeouts" where
  "deduceGameState now gT =
     (case gT of (g, T) \<Rightarrow>
        if numPlayers g = 0 then finish (g, T)
        else
          (let g1 = (if numPlayers g = maxPlayers g then g\<lparr>isJoinable := False\<rparr> else g)
           in if isSinglePlayer g1 then deduceGameStateSinglePlayer now (g1, T)
              else deduceGameStateMultiPlayer now (g1, T)))"

section \<open>Persistence\<close>

text \<open>
  The collections of the store, the saved results and the timer registry. A store
  operation may fail: each operation of a function takes an injected failure, \<open>None\<close>
  when the store answers and \<open>Some e\<close> when it reports the error \<open>e\<close>. The log
  (\<open>util.log\<close>) and the event bus (\<open>enet.emit\<close>) are not modelled.
\<close>

record world =
  Games :: "objectid \<rightharpoonup> game_doc"
  Users :: "objectid \<rightharpoonup> user_doc"
  Exercises :: "objectid \<rightharpoonup> exercise_doc"
  Langs :: "string \<rightharpoonup> lang_doc"
  Results :: "stats_doc list"
  gameTimeouts :: timeouts

text \<open>
  What a function does with its callback: it throws before calling it (an uncaught
  \<open>TypeError\<close>), it returns without ever calling it, or it calls it. A callback's
  arguments \<open>(err, ...)\<close> are a sum: \<open>Inl\<close> the error, \<open>Inr\<close> the results.
\<close>

datatype 'a outcome = Threw string | NoCallback | Called 'a

definition TypeError :: string where
  "TypeError = ''TypeError''"

text \<open>\<open>Model.findById(id, function(err, doc) ...)\<close>: an error, or the document or \<open>null\<close>.\<close>

definition findById :: "string option \<Rightarrow> ('k \<rightharpoonup> 'a) \<Rightarrow> 'k \<Rightarrow> string + 'a option" where
  "findById fail coll k = (case fail of Some e \<Rightarrow> Inl e | None \<Rightarrow> Inr (coll k))"

text \<open>A lookup by a reference that may be \<open>undefined\<close> finds nothing.\<close>

definition findByRef :: "string option \<Rightarrow> ('k \<rightharpoonup> 'a) \<Rightarrow> 'k option \<Rightarrow> string + 'a option" where
  "findByRef fail coll r =
     (case fail of Some e \<Rightarrow> Inl e
      | None \<Rightarrow> (case r of None \<Rightarrow> Inr None | Some k \<Rightarrow> Inr (coll k)))"

definition updateGameState ::
  "string option \<Rightarrow> date \<Rightarrow> game_doc \<Rightarrow> world \<Rightarrow> string option \<times> game_doc \<times> world" where
  "updateGameState saveFail now g w =
     (case deduceGameState now (g, gameTimeouts w) of (g', T') \<Rightarrow>
        (case saveFail of
           Some e \<Rightarrow> (Some ''error saving user'', g', w\<lparr>gameTimeouts := T'\<rparr>)
         | None \<Rightarrow>
             (None, g', w\<lparr>gameTimeouts := T', Games := (Games w)(game_id g' \<mapsto> g')\<rparr>)))"

section \<open>Membership\<close>

definition LobbyUnavailable :: string where
  "LobbyUnavailable = ''this game is full, or has been removed''"

definition AlreadyInGame :: string where
  "AlreadyInGame = ''you are already inside another game!''"

definition getJoinError :: "game_doc \<Rightarrow> user_doc \<Rightarrow> string option" where
  "getJoinError g p =
     (if \<not> isJoinable g \<and> \<not> isSinglePlayer g then Some LobbyUnavailable
      else if user_idstr p \<in> set (map toHexString (players g)) then Some AlreadyInGame
      else None)"

definition addPlayer ::
  "string option \<Rightarrow> date \<Rightarrow> user_doc \<Rightarrow> game_doc \<Rightarrow> world \<Rightarrow> string option \<times> game_doc \<times> world" where
  "addPlayer saveFail now p g w =
     updateGameState saveFail now
       (g\<lparr>players := players g @ [user_id p],
          playerNames := playerNames g @ [username p],
          numPlayers := numPlayers g + 1\<rparr>) w"

text \<open>
  Mongoose's array method \<open>remove\<close> (\<open>pull\<close>) deletes every element equal to its
  argument: \<open>removeAll\<close>.
\<close>

definition removePlayer ::
  "string option \<Rightarrow> date \<Rightarrow> user_doc \<Rightarrow> game_doc \<Rightarrow> world \<Rightarrow> string option \<times> game_doc \<times> world" where
  "removePlayer saveFail now p g w =
     updateGameState saveFail now
       (g\<lparr>players := removeAll (user_id p) (players g),
          playerNames := removeAll (username p) (playerNames g),
          numPlayers := (if numPlayers g \<le> 0 then 0 else numPlayers g - 1)\<rparr>) w"

text \<open>
  \<open>joinGame\<close>: the callback's \<open>(error, false)\<close> is \<open>Inl error\<close> and its
  \<open>(null, true, game)\<close> is \<open>Inr game\<close>. The result carries the user object as the call
  leaves it.
\<close>

definition joinGame ::
  "string option \<Rightarrow> string option \<Rightarrow> date \<Rightarrow> user_doc \<Rightarrow> game_doc \<Rightarrow> world
     \<Rightarrow> (string + game_doc) \<times> user_doc \<times> world" where
  "joinGame gameSaveFail userSaveFail now u g w =
     (case getJoinError g u of
        Some error \<Rightarrow> (Inl error, u, w)
      | None \<Rightarrow>
          (let u1 = u\<lparr>currentGame := Some (game_id g)\<rparr> in
           case addPlayer gameSaveFail now u1 g w of
             (Some err, g', w1) \<Rightarrow> (Inl ''error joining game'', u1, w1)
           | (None, g', w1) \<Rightarrow>
               (case userSaveFail of
                  Some err \<Rightarrow> (Inl ''error saving user'', u1, w1)
                | None \<Rightarrow> (Inr g', u1, w1\<lparr>Users := (Users w1)(user_id u1 \<mapsto> u1)\<rparr>))))"

text \<open>\<open>new Game()\<close>: the schema's defaults, with the fresh \<open>_id\<close> Mongoose gives it.\<close>

definition new_Game :: "objectid \<Rightarrow> game_doc" where
  "new_Game fresh =
     \<lparr>game_id = fresh, lang = None, langName = None, exercise = None,
      isSinglePlayer = False, numPlayers = 0, maxPlayers = GAME_DEFAULT_MAX_PLAYERS,
      status = None, statusText = None, isJoinable = True, isComplete = False,
      isViewable = True, starting = False, started = False, startTime = None,
      creator = None, winner = None, winnerTime = Undefined, winnerSpeed = Undefined,
      players = [], playerNames = [], startingPlayers = [], wasReset = False\<rparr>"

record game_opts =
  opts_lang :: string
  opts_langName :: string
  opts_exercise :: "objectid option"
  opts_isSinglePlayer :: bool

definition createGame ::
  "objectid \<Rightarrow> string option \<Rightarrow> string option \<Rightarrow> date \<Rightarrow> user_doc \<Rightarrow> game_opts \<Rightarrow> world
     \<Rightarrow> (string + game_doc) \<times> user_doc \<times> world" where
  "createGame fresh gameSaveFail userSaveFail now u opts w =
     (if currentGame u \<noteq> None then (Inl AlreadyInGame, u, w)
      else
        (let g0 = (new_Game fresh)
                    \<lparr>lang := Some (opts_lang opts), langName := Some (opts_langName opts),
                     exercise := opts_exercise opts, isSinglePlayer := opts_isSinglePlayer opts,
                     creator := Some (user_id u)\<rparr>;
             g1 = (if isSinglePlayer g0 then beginSinglePlayer g0 else beginMultiPlayer g0)
         in joinGame gameSaveFail userSaveFail now u g1 w))"

text \<open>
  \<open>randomExercise\<close>: \<open>r\<close> is the index \<open>Math.floor(Math.random() * length)\<close>; an index
  outside the array reads \<open>undefined\<close>.
\<close>

definition randomExercise :: "nat \<Rightarrow> lang_doc \<Rightarrow> objectid option" where
  "randomExercise r l =
     (if r < length (lang_exercises l) then Some (lang_exercises l ! r) else None)"

definition performIngameAction ::
  "objectid \<Rightarrow> nat \<Rightarrow> string option \<Rightarrow> string option \<Rightarrow> string option \<Rightarrow> date \<Rightarrow> user_doc
     \<Rightarrow> world \<Rightarrow> (string + game_doc) outcome \<times> user_doc \<times> world" where
  "performIngameAction fresh r findFail gameSaveFail userSaveFail now u w =
     (if ingameAction u = Some ''join'' then
        (case findByRef findFail (Games w) (args_game (ingameArgs u)) of
           Inl err \<Rightarrow> (Called (Inl err), u, w)
         | Inr None \<Rightarrow> (Threw TypeError, u, w)
         | Inr (Some g) \<Rightarrow>
             (case joinGame gameSaveFail userSaveFail now u g w of
                (res, u', w') \<Rightarrow> (Called res, u', w')))
      else if ingameAction u = Some ''createnew'' then
        (case findByRef findFail (Langs w) (args_lang (ingameArgs u)) of
           Inr (Some l) \<Rightarrow>
             (case createGame fresh gameSaveFail userSaveFail now u
                     \<lparr>opts_lang = lang_key l, opts_langName = lang_name l,
                      opts_exercise = randomExercise r l,
                      opts_isSinglePlayer = args_isSinglePlayer (ingameArgs u)\<rparr> w of
                (res, u', w') \<Rightarrow> (Called res, u', w'))
         | _ \<Rightarrow>
             (Called (Inl (''No such game type: '' @
                (case args_lang (ingameArgs u) of None \<Rightarrow> ''undefined'' | Some k \<Rightarrow> k))), u, w))
      else
        (Called (Inl (''No such action type: '' @
           (case ingameAction u of None \<Rightarrow> ''undefined'' | Some a \<Rightarrow> a))), u, w))"

text \<open>
  \<open>quitCurrentGame\<close>: \<open>callback()\<close> is \<open>Inr None\<close>, \<open>callback(null, game)\<close> is
  \<open>Inr (Some game)\<close>.
\<close>

definition quitCurrentGame ::
  "string option \<Rightarrow> string option \<Rightarrow> string option \<Rightarrow> date \<Rightarrow> user_doc \<Rightarrow> world
     \<Rightarrow> (string + game_doc option) outcome \<times> user_doc \<times> world" where
  "quitCurrentGame findFail gameSaveFail userSaveFail now u w =
     (case currentGame u of
        None \<Rightarrow> (Called (Inr None), u, w)
      | Some gid \<Rightarrow>
          (case findById findFail (Games w) gid of
             Inl err \<Rightarrow> (Called (Inl ''error retrieving game''), u, w)
           | Inr None \<Rightarrow> (NoCallback, u, w)
           | Inr (Some g) \<Rightarrow>
               (case removePlayer gameSaveFail now u g w of
                  (Some err, g', w1) \<Rightarrow> (Called (Inl err), u, w1)
                | (None, g', w1) \<Rightarrow>
                    (let u1 = u\<lparr>currentGame := None\<rparr> in
                     case userSaveFail of
                       Some err \<Rightarrow> (Called (Inl ''error saving user''), u1, w1)
                     | None \<Rightarrow>
                         (Called (Inr (Some g')), u1,
                          w1\<lparr>Users := (Users w1)(user_id u1 \<mapsto> u1)\<rparr>)))))"

section \<open>Timer callbacks\<close>

text \<open>
  The callbacks armed by \<open>setupTiming\<close> fetch the game by the captured \<open>id\<close> and use the
  result without a test: on an error (logged) or on \<open>null\<close> the property access throws.
  \<open>Inl\<close> is the uncaught exception, \<open>Inr\<close> the world after the callback.
\<close>

definition runTimerCallback ::
  "string option \<Rightarrow> string option \<Rightarrow> date \<Rightarrow> timer_callback \<Rightarrow> world \<Rightarrow> string + world" where
  "runTimerCallback findFail saveFail now f w =
     (case f of
        CloseJoining gid \<Rightarrow>
          (case findById findFail (Games w) (ObjectId gid) of
             Inr (Some g) \<Rightarrow>
               (case updateGameState saveFail now (g\<lparr>isJoinable := False\<rparr>) w of
                  (e, g', w') \<Rightarrow> Inr w')
           | _ \<Rightarrow> Inl TypeError)
      | StartGame gid \<Rightarrow>
          (case findById findFail (Games w) (ObjectId gid) of
             Inr (Some g) \<Rightarrow>
               (case updateGameState saveFail now (start g) w of
                  (e, g', w') \<Rightarrow> Inr w')
           | _ \<Rightarrow> Inl TypeError))"

text \<open>The timeout of \<open>gid\<close> fires: its entry is deleted, then its callback runs.\<close>

definition fireTimeout ::
  "string option \<Rightarrow> string option \<Rightarrow> date \<Rightarrow> string \<Rightarrow> world \<Rightarrow> string + world" where
  "fireTimeout findFail saveFail now gid w =
     (case gameTimeouts w gid of
        None \<Rightarrow> Inr w
      | Some (t, f) \<Rightarrow>
          runTimerCallback findFail saveFail now f
            (w\<lparr>gameTimeouts := (gameTimeouts w)(gid := None)\<rparr>))"

section \<open>Statistics\<close>

text \<open>
  \<open>GameSchema.methods.updateStatistics\<close>: the callback's error, the game object and the
  world after the call.
\<close>

definition Game_updateStatistics ::
  "string option \<Rightarrow> stats_doc \<Rightarrow> game_doc \<Rightarrow> world \<Rightarrow> string option \<times> game_doc \<times> world" where
  "Game_updateStatistics saveFail st g w =
     (if \<not> strictEq (winnerTime g) (time st) \<and>
         strictEq (Math_min (jor (winnerTime g) Infinity) (jor (time st) Infinity)) (time st)
      then
        (let g' = g\<lparr>winner := Some (player st), winnerTime := time st, winnerSpeed := speed st\<rparr>
         in case saveFail of
              Some err \<Rightarrow> (Some ''error saving game'', g', w)
            | None \<Rightarrow> (None, g', w\<lparr>Games := (Games w)(game_id g' \<mapsto> g')\<rparr>))
      else (None, g, w))"

text \<open>\<open>game.winner\<close> as a value: an ObjectId object, or \<open>undefined\<close>.\<close>

definition winner_value :: "game_doc \<Rightarrow> jsval" where
  "winner_value g = (case winner g of None \<Rightarrow> JUndefined | Some p \<Rightarrow> JObject p)"

definition User_updateStatistics ::
  "string option \<Rightarrow> stats_doc \<Rightarrow> game_doc \<Rightarrow> user_doc \<Rightarrow> world \<Rightarrow> string option \<times> user_doc \<times> world" where
  "User_updateStatistics saveFail st g u w =
     (let u1 = u\<lparr>bestTime := Math_min (jor (bestTime u) Infinity) (jor (time st) Infinity)\<rparr>;
          u2 = u1\<lparr>bestSpeed := Math_max (jor (bestSpeed u1) (Num 0)) (jor (speed st) (Num 0))\<rparr>;
          u3 = u2\<lparr>totalGames := totalGames u2 + 1\<rparr>;
          u4 = (if \<not> isSinglePlayer g
                then u3\<lparr>totalMultiplayerGames := totalMultiplayerGames u3 + 1\<rparr> else u3);
          u5 = (if strictEqString (winner_value g) (user_idstr u4)
                then u4\<lparr>gamesWon := gamesWon u4 + 1\<rparr> else u4);
          u6 = u5\<lparr>averageTime :=
                  jdiv (jadd (jmul (averageTime u5) (Num (real (totalGames u5 - 1)))) (time st))
                       (Num (real (totalGames u5)))\<rparr>;
          u7 = u6\<lparr>averageSpeed :=
                  jdiv (jadd (jmul (averageSpeed u6) (Num (real (totalGames u6 - 1)))) (speed st))
                       (Num (real (totalGames u6)))\<rparr>
      in case saveFail of
           Some err \<Rightarrow> (Some ''error saving user'', u7, w)
         | None \<Rightarrow> (None, u7, w\<lparr>Users := (Users w)(user_id u7 \<mapsto> u7)\<rparr>))"

text \<open>
  \<open>moment().diff(game.startTime, 'milliseconds')\<close>: the milliseconds from the start time to
  \<open>now\<close> (\<open>moment(undefined)\<close> is the current instant).
\<close>

definition realTime :: "date \<Rightarrow> game_doc \<Rightarrow> jsnum" where
  "realTime now g = (case startTime g of None \<Rightarrow> Num 0 | Some s \<Rightarrow> Num (real_of_int (now - s)))"

text \<open>
  Assigning to a Number path of a Mongoose document runs the path's setter, which casts
  the value. The cast passes \<open>undefined\<close>, finite numbers and the infinities and fails
  on \<open>NaN\<close>: then the path keeps the value it had, and the document records the error,
  so that its validation (run by \<open>save\<close>) fails.
\<close>

definition castFails :: "jsnum \<Rightarrow> bool" where
  "castFails v = (v = NaN)"

definition set_time :: "jsnum \<Rightarrow> stats_doc \<Rightarrow> stats_doc" where
  "set_time v st = (if castFails v then st\<lparr>hasCastError := True\<rparr> else st\<lparr>time := v\<rparr>)"

definition set_typeables :: "jsnum \<Rightarrow> stats_doc \<Rightarrow> stats_doc" where
  "set_typeables v st = (if castFails v then st\<lparr>hasCastError := True\<rparr> else st\<lparr>typeables := v\<rparr>)"

definition set_speed :: "jsnum \<Rightarrow> stats_doc \<Rightarrow> stats_doc" where
  "set_speed v st = (if castFails v then st\<lparr>hasCastError := True\<rparr> else st\<lparr>speed := v\<rparr>)"

definition set_percentUnproductive :: "jsnum \<Rightarrow> stats_doc \<Rightarrow> stats_doc" where
  "set_percentUnproductive v st =
     (if castFails v then st\<lparr>hasCastError := True\<rparr> else st\<lparr>percentUnproductive := v\<rparr>)"

text \<open>
  The block of \<open>StatsSchema.methods.updateStatistics\<close> that clamps the reported time and
  derives the fields of the result (between the lookup of the exercise and \<open>stats.save\<close>).
  Each assignment goes through the setter; each read gives the value the path holds.
\<close>

definition deriveStats :: "date \<Rightarrow> game_doc \<Rightarrow> exercise_doc \<Rightarrow> stats_doc \<Rightarrow> stats_doc" where
  "deriveStats now g ex st =
     (let st1 = (if jgt (jabs (jsub (realTime now g) (time st))) STATISTICS_VALIDATION_THRESHOLD_MS
                 then set_time (realTime now g) st else st);
          st2 = set_typeables (exercise_typeables ex) st1;
          st3 = set_speed
                  (jmul (jdiv (typeables st2) CHARACTERS_PER_WORD)
                        (jdiv (Num 1) (jdiv (time st2) MILLISECONDS_PER_MINUTE))) st2
      in set_percentUnproductive (jsub (Num 1) (jdiv (typeables st3) (keystrokes st3))) st3)"

text \<open>
  \<open>StatsSchema.methods.updateStatistics\<close>. Its six store operations, in the order of
  their failures here: the lookups of the user, the game and the exercise, then the
  saves of the result, the game and the user. The callback's \<open>(err)\<close> is \<open>Inl err\<close>, its
  \<open>(null, stats, user, game)\<close> is \<open>Inr (stats, user, game)\<close>. \<open>stats.save\<close> fails when
  the store fails or when the result has a cast error; its error is logged and nothing
  else: the function goes on.
\<close>

definition Stats_updateStatistics ::
  "string option \<Rightarrow> string option \<Rightarrow> string option \<Rightarrow> string option \<Rightarrow> string option
     \<Rightarrow> string option \<Rightarrow> date \<Rightarrow> stats_doc \<Rightarrow> world
     \<Rightarrow> (string + stats_doc \<times> user_doc \<times> game_doc) outcome \<times> world" where
  "Stats_updateStatistics userFindFail gameFindFail exFindFail statsSaveFail gameSaveFail
       userSaveFail now st w =
     (case findById userFindFail (Users w) (player st) of
        Inl err \<Rightarrow> (Called (Inl err), w)
      | Inr user \<Rightarrow>
          (case findById gameFindFail (Games w) (game st) of
             Inl err \<Rightarrow> (Called (Inl err), w)
           | Inr None \<Rightarrow> (NoCallback, w)
           | Inr (Some g) \<Rightarrow>
               (case findByRef exFindFail (Exercises w) (exercise g) of
                  Inl err \<Rightarrow> (Called (Inl err), w)
                | Inr None \<Rightarrow> (Threw TypeError, w)
                | Inr (Some ex) \<Rightarrow>
                    (let st' = deriveStats now g ex st;
                         w1 = (case statsSaveFail of
                                 Some err \<Rightarrow> w
                               | None \<Rightarrow>
                                   if hasCastError st' then w
                                   else w\<lparr>Results := Results w @ [st']\<rparr>)
                     in case Game_updateStatistics gameSaveFail st' g w1 of
                          (Some err, g', w2) \<Rightarrow> (Called (Inl err), w2)
                        | (None, g', w2) \<Rightarrow>
                            (case user of
                               None \<Rightarrow> (Threw TypeError, w2)
                             | Some u \<Rightarrow>
                                 (case User_updateStatistics userSaveFail st' g' u w2 of
                                    (Some err, u', w3) \<Rightarrow> (Called (Inl err), w3)
                                  | (None, u', w3) \<Rightarrow> (Called (Inr (st', u', g')), w3)))))))"


section \<open>The counter invariant\<close>

text \<open>
  The counter invariant of a game: \<open>numPlayers\<close> is the length of \<open>players\<close> and of
  \<open>playerNames\<close>.
\<close>

definition counterInvariant :: "game_doc \<Rightarrow> bool" where
  "counterInvariant g =
     (numPlayers g = int (length (players g)) \<and> numPlayers g = int (length (playerNames g)))"

section \<open>Sample documents\<close>

text \<open>Concrete documents on which the theorems below are instantiated.\<close>

definition alice :: user_doc where
  "alice =
     \<lparr>user_id = ObjectId ''a1'', username = ''alice'', bestTime = Undefined,
      bestSpeed = Undefined, averageTime = Num 0, averageSpeed = Num 0, totalGames = 0,
      totalMultiplayerGames = 0, gamesWon = 0, isAllowedIngame = False, ingameAction = None,
      ingameArgs = \<lparr>args_game = None, args_lang = None, args_isSinglePlayer = False\<rparr>,
      currentGame = None\<rparr>"

definition bob :: user_doc where
  "bob = alice\<lparr>user_id := ObjectId ''b2'', username := ''bob''\<rparr>"

definition lobby :: game_doc where
  "lobby = beginMultiPlayer (new_Game (ObjectId ''c3''))"

definition empty_world :: world where
  "empty_world =
     \<lparr>Games = Map.empty, Users = Map.empty, Exercises = Map.empty, Langs = Map.empty,
      Results = [], gameTimeouts = Map.empty\<rparr>"

text \<open>The sample game with \<open>alice\<close> as its only player.\<close>

definition lobby1 :: game_doc where
  "lobby1 = lobby\<lparr>numPlayers := 1, players := [ObjectId ''a1''], playerNames := [''alice'']\<rparr>"

text \<open>
  The sample game with two players, about to start at instant 20000, and a world
  that stores it together with its players.
\<close>

definition lobby2 :: game_doc where
  "lobby2 =
     lobby\<lparr>numPlayers := 2, players := [ObjectId ''a1'', ObjectId ''b2''],
           playerNames := [''alice'', ''bob''], starting := True, startTime := Some 20000\<rparr>"

definition world2 :: world where
  "world2 =
     empty_world
       \<lparr>Games := [ObjectId ''c3'' \<mapsto> lobby2],
        Users := [ObjectId ''a1'' \<mapsto> alice\<lparr>currentGame := Some (ObjectId ''c3'')\<rparr>,
                  ObjectId ''b2'' \<mapsto> bob\<lparr>currentGame := Some (ObjectId ''c3'')\<rparr>]\<rparr>"

text \<open>The sample game after joining has closed, \<open>alice\<close> still in it.\<close>

definition lobby1_closed :: game_doc where
  "lobby1_closed = lobby1\<lparr>isJoinable := False\<rparr>"

text \<open>
  A sample race: an exercise of 100 typeables, the two-player game started at instant
  20000, and the result \<open>alice\<close> reports: 12000 ms, 120 keystrokes.
\<close>

definition exercise100 :: exercise_doc where
  "exercise100 = \<lparr>exercise_id = ObjectId ''f6'', exercise_typeables = Num 100\<rparr>"

definition lobby_started :: game_doc where
  "lobby_started = start (lobby2\<lparr>exercise := Some (ObjectId ''f6'')\<rparr>)"

definition world3 :: world where
  "world3 =
     world2\<lparr>Games := [ObjectId ''c3'' \<mapsto> lobby_started],
            Exercises := [ObjectId ''f6'' \<mapsto> exercise100]\<rparr>"

definition stats1 :: stats_doc where
  "stats1 =
     \<lparr>player = ObjectId ''a1'', game = ObjectId ''c3'', time = Num 12000, speed = Undefined,
      typeables = Undefined, keystrokes = Num 120, percentUnproductive = Undefined,
      mistakes = Num 3, hasCastError = False\<rparr>"

text \<open>The equations that unfold the sample documents.\<close>

lemmas ex_defs = alice_def bob_def lobby_def empty_world_def new_Game_def beginMultiPlayer_def
  setStatus_def bindings_def game_idstr_def user_idstr_def GAME_DEFAULT_MAX_PLAYERS_def

section \<open>The state machine: an empty game\<close>

text \<open>
  C3. Whatever the state of the game, \<open>deduceGameState\<close> on a game with
  \<open>numPlayers = 0\<close> sets \<open>isComplete\<close>, clears \<open>isViewable\<close> and \<open>isJoinable\<close>, removes
  the entry of the game's id from the timer registry and does nothing else: no other
  field changes (so neither the single-player nor the multi-player branch ran) and no
  timer is armed.
\<close>

theorem deduceGameState_no_players:
  "numPlayers g = 0 \<Longrightarrow>
   deduceGameState now (g, T) =
     (g\<lparr>isComplete := True, isViewable := False, isJoinable := False\<rparr>,
      T(game_idstr g := None))"
  by (simp add: deduceGameState_def finish_def timeouts_remove_def)

theorem deduceGameState_no_players_witness:
  "numPlayers (lobby\<lparr>starting := True, startTime := Some 20000\<rparr>) = 0 \<and>
   isComplete (fst (deduceGameState 0 (lobby\<lparr>starting := True, startTime := Some 20000\<rparr>,
       [''c3'' \<mapsto> (15001, CloseJoining ''c3'')]))) \<and>
   \<not> isViewable (fst (deduceGameState 0 (lobby\<lparr>starting := True, startTime := Some 20000\<rparr>,
       [''c3'' \<mapsto> (15001, CloseJoining ''c3'')]))) \<and>
   \<not> isJoinable (fst (deduceGameState 0 (lobby\<lparr>starting := True, startTime := Some 20000\<rparr>,
       [''c3'' \<mapsto> (15001, CloseJoining ''c3'')]))) \<and>
   snd (deduceGameState 0 (lobby\<lparr>starting := True, startTime := Some 20000\<rparr>,
       [''c3'' \<mapsto> (15001, CloseJoining ''c3'')])) ''c3'' = None"
  using deduceGameState_no_players
    [of "lobby\<lparr>starting := True, startTime := Some 20000\<rparr>" 0
        "[''c3'' \<mapsto> (15001, CloseJoining ''c3'')]"]
  by (simp add: ex_defs)


section \<open>Membership: the player counter\<close>

text \<open>Re-evaluating the state never touches the roster or the counter.\<close>

lemma setupTiming_roster:
  "players (fst (setupTiming now (g, T))) = players g \<and>
   playerNames (fst (setupTiming now (g, T))) = playerNames g \<and>
   numPlayers (fst (setupTiming now (g, T))) = numPlayers g"
  by (simp add: setupTiming_def start_def setStatus_def)

lemma deduceGameState_roster:
  "players (fst (deduceGameState now (g, T))) = players g \<and>
   playerNames (fst (deduceGameState now (g, T))) = playerNames g \<and>
   numPlayers (fst (deduceGameState now (g, T))) = numPlayers g"
  by (simp add: deduceGameState_def finish_def deduceGameStateSinglePlayer_def
      deduceGameStateMultiPlayer_def setupTiming_roster Let_def)

lemma updateGameState_roster:
  "players (fst (snd (updateGameState sf now g w))) = players g \<and>
   playerNames (fst (snd (updateGameState sf now g w))) = playerNames g \<and>
   numPlayers (fst (snd (updateGameState sf now g w))) = numPlayers g"
  using deduceGameState_roster [of now g "gameTimeouts w"]
  by (cases "deduceGameState now (g, gameTimeouts w)"; cases sf) (simp_all add: updateGameState_def)

lemma length_removeAll_count:
  "length (removeAll x xs) + count_list xs x = length xs"
  by (induction xs) auto

text \<open>
  C2 (as amended). Let the counter invariant hold of a game. After \<open>addPlayer\<close> (with
  its \<open>updateGameState\<close>) it holds again. After \<open>removePlayer\<close> (with its
  \<open>updateGameState\<close>) it holds exactly when the game had no player, or the player's id
  occurs exactly once in \<open>players\<close> and the player's name exactly once in
  \<open>playerNames\<close>: the counter is decremented whether or not anything was removed.
\<close>

theorem add_remove_counter:
  assumes "counterInvariant g"
  shows "counterInvariant (fst (snd (addPlayer sf now p g w)))
    \<and> (counterInvariant (fst (snd (removePlayer sf now p g w))) \<longleftrightarrow>
         (players g = [] \<or>
          (count_list (players g) (user_id p) = 1 \<and>
           count_list (playerNames g) (username p) = 1)))"
proof -
  have n: "numPlayers g = int (length (players g))"
    and m: "length (playerNames g) = length (players g)"
    using assms by (simp_all add: counterInvariant_def)
  have add: "counterInvariant (fst (snd (addPlayer sf now p g w)))"
    using n m by (simp add: counterInvariant_def addPlayer_def updateGameState_roster)
  have a: "length (removeAll (user_id p) (players g)) + count_list (players g) (user_id p)
             = length (players g)"
    by (rule length_removeAll_count)
  have b: "length (removeAll (username p) (playerNames g))
             + count_list (playerNames g) (username p) = length (players g)"
    using length_removeAll_count [of "username p" "playerNames g"] m by simp
  have rem: "counterInvariant (fst (snd (removePlayer sf now p g w))) \<longleftrightarrow>
         (players g = [] \<or>
          (count_list (players g) (user_id p) = 1 \<and>
           count_list (playerNames g) (username p) = 1))"
  proof (cases "players g = []")
    case True
    then have "playerNames g = []" using m by simp
    with True n show ?thesis
      by (simp add: counterInvariant_def removePlayer_def updateGameState_roster)
  next
    case False
    then have pos: "0 < length (players g)" by simp
    show ?thesis
      using False n pos a b
      by (simp add: counterInvariant_def removePlayer_def updateGameState_roster) linarith
  qed
  from add rem show ?thesis by simp
qed

theorem add_remove_counter_witness:
  "counterInvariant lobby1 \<and>
   counterInvariant (fst (snd (addPlayer None 0 bob lobby1 empty_world))) \<and>
   numPlayers (fst (snd (addPlayer None 0 bob lobby1 empty_world))) = 2 \<and>
   counterInvariant (fst (snd (removePlayer None 0 alice lobby1 empty_world))) \<and>
   numPlayers (fst (snd (removePlayer None 0 alice lobby1 empty_world))) = 0"
  using add_remove_counter [of lobby1 None 0 bob empty_world]
    add_remove_counter [of lobby1 None 0 alice empty_world]
  by (simp add: counterInvariant_def addPlayer_def removePlayer_def updateGameState_roster
      lobby1_def ex_defs)

text \<open>
  The claim as stated fails for a player who is absent from a game that has a player:
  the sequences keep their length and the counter drops to 0.
\<close>

theorem removePlayer_absent_counterexample:
  "counterInvariant lobby1 \<and>
   user_id bob \<notin> set (players lobby1) \<and>
   username bob \<notin> set (playerNames lobby1) \<and>
   numPlayers (fst (snd (removePlayer None 0 bob lobby1 empty_world))) = 0 \<and>
   players (fst (snd (removePlayer None 0 bob lobby1 empty_world))) = [ObjectId ''a1''] \<and>
   playerNames (fst (snd (removePlayer None 0 bob lobby1 empty_world))) = [''alice''] \<and>
   \<not> counterInvariant (fst (snd (removePlayer None 0 bob lobby1 empty_world)))"
  by (simp add: counterInvariant_def removePlayer_def updateGameState_roster lobby1_def ex_defs)

section \<open>The state machine: arming the timer\<close>

text \<open>
  C4 (as amended). For a game with a start time \<open>s\<close>, with \<open>remaining = s - now\<close>:
  if the game is joinable and \<open>remaining > 5000\<close>, \<open>setupTiming\<close> arms a timer at delay
  \<open>remaining - 5000 + 1\<close> whose callback clears \<open>isJoinable\<close> of the re-fetched game and
  re-evaluates its state; if joinable and \<open>remaining \<le> 5000\<close>, it clears \<open>isJoinable\<close>
  and arms nothing; if not joinable and \<open>remaining > 0\<close>, it arms a timer at delay
  \<open>remaining + 1\<close> whose callback calls \<open>start()\<close> on the re-fetched game and
  re-evaluates its state; if not joinable and \<open>remaining \<le> 0\<close>, it calls \<open>start()\<close>
  at once. (The callbacks are stated for a game that the store still holds.)
\<close>

theorem setupTiming_cases:
  assumes "startTime g = Some s"
  shows "setupTiming now (g, T) =
     (if isJoinable g then
        (if s - now > 5000
         then (g, T(game_idstr g \<mapsto> (s - now - 5000 + 1, CloseJoining (game_idstr g))))
         else (g\<lparr>isJoinable := False\<rparr>, T))
      else
        (if s - now > 0
         then (g, T(game_idstr g \<mapsto> (s - now + 1, StartGame (game_idstr g))))
         else (start g, T)))
   \<and> (\<forall>w g0 saveFail t. Games w (ObjectId gid) = Some g0 \<longrightarrow>
         runTimerCallback None saveFail t (CloseJoining gid) w =
           Inr (snd (snd (updateGameState saveFail t (g0\<lparr>isJoinable := False\<rparr>) w))))
   \<and> (\<forall>w g0 saveFail t. Games w (ObjectId gid) = Some g0 \<longrightarrow>
         runTimerCallback None saveFail t (StartGame gid) w =
           Inr (snd (snd (updateGameState saveFail t (start g0) w))))"
  using assms
  by (simp add: setupTiming_def timeLeft_def timeouts_create_def GAME_TIME_JOIN_CUTOFF_MS_def
      runTimerCallback_def findById_def split: prod.splits)

theorem setupTiming_cases_witness:
  "startTime lobby2 = Some 20000
   \<and> setupTiming 0 (lobby2, Map.empty) = (lobby2, [''c3'' \<mapsto> (15001, CloseJoining ''c3'')])
   \<and> Games world2 (ObjectId ''c3'') = Some lobby2
   \<and> runTimerCallback None None 15001 (CloseJoining ''c3'') world2 =
        Inr (snd (snd (updateGameState None 15001 (lobby2\<lparr>isJoinable := False\<rparr>) world2)))
   \<and> runTimerCallback None None 20001 (StartGame ''c3'') world2 =
        Inr (snd (snd (updateGameState None 20001 (start lobby2) world2)))"
  using setupTiming_cases [of lobby2 20000 0 Map.empty "''c3''"]
  by (simp add: lobby2_def world2_def ex_defs)

text \<open>
  The claim as stated fails on the delays: with 20000 ms remaining a joinable game's
  timer is armed at 15001 ms, not at \<open>20000 - 5000\<close>, and with 3000 ms remaining a
  closed game's timer is armed at 3001 ms.
\<close>

theorem setupTiming_delay_counterexample:
  "startTime (lobby\<lparr>startTime := Some 20000\<rparr>) = Some 20000 \<and>
   isJoinable (lobby\<lparr>startTime := Some 20000\<rparr>) \<and>
   snd (setupTiming 0 (lobby\<lparr>startTime := Some 20000\<rparr>, Map.empty)) ''c3''
     = Some (15001, CloseJoining ''c3'') \<and>
   snd (setupTiming 0 (lobby\<lparr>startTime := Some 20000\<rparr>, Map.empty)) ''c3''
     \<noteq> Some (20000 - 0 - GAME_TIME_JOIN_CUTOFF_MS, CloseJoining ''c3'') \<and>
   snd (setupTiming 0 (lobby\<lparr>startTime := Some 3000, isJoinable := False\<rparr>, Map.empty)) ''c3''
     = Some (3001, StartGame ''c3'')"
  by (simp add: setupTiming_def timeLeft_def timeouts_create_def GAME_TIME_JOIN_CUTOFF_MS_def
      ex_defs)

section \<open>Lookups that find nothing\<close>

text \<open>
  C5 (the code at the failing input). When the store holds no game of the id, both
  timer callbacks of \<open>setupTiming\<close> throw a \<open>TypeError\<close> (with or without a store
  error), and \<open>performIngameAction\<close> with the action \<open>join\<close> throws it before calling
  its callback: the missing game is dereferenced.
\<close>

theorem missing_lobby_throws:
  assumes "Games w (ObjectId gid) = None"
  shows "runTimerCallback findFail saveFail now (CloseJoining gid) w = Inl TypeError
    \<and> runTimerCallback findFail saveFail now (StartGame gid) w = Inl TypeError
    \<and> fst (performIngameAction fresh r None gameSaveFail userSaveFail now
         (u\<lparr>ingameAction := Some ''join'',
            ingameArgs := (ingameArgs u)\<lparr>args_game := Some (ObjectId gid)\<rparr>\<rparr>) w)
        = Threw TypeError"
  using assms
  by (cases findFail)
     (simp_all add: runTimerCallback_def performIngameAction_def findById_def findByRef_def)

theorem missing_lobby_throws_witness:
  "Games empty_world (ObjectId ''c3'') = None
    \<and> fireTimeout None None 20001 ''c3''
          (empty_world\<lparr>gameTimeouts := [''c3'' \<mapsto> (20001, StartGame ''c3'')]\<rparr>)
        = Inl TypeError
    \<and> runTimerCallback None None 20001 (CloseJoining ''c3'') empty_world = Inl TypeError
    \<and> fst (performIngameAction (ObjectId ''d4'') 0 None None None 20001
         (alice\<lparr>ingameAction := Some ''join'',
            ingameArgs := (ingameArgs alice)\<lparr>args_game := Some (ObjectId ''c3'')\<rparr>\<rparr>) empty_world)
        = Threw TypeError"
  using missing_lobby_throws [where w = empty_world and gid = "''c3''" and findFail = None
      and saveFail = None and now = 20001 and fresh = "ObjectId ''d4''" and r = 0
      and gameSaveFail = None and userSaveFail = None and u = alice]
  by (simp add: empty_world_def fireTimeout_def)

text \<open>
  C10. A player whose \<open>currentGame\<close> names a game that the store does not hold (the
  lookup answers \<open>null\<close> without an error): \<open>quitCurrentGame\<close> never calls its callback
  and changes neither the player nor the world; \<open>currentGame\<close> stays set.
\<close>

theorem quitCurrentGame_missing_lobby:
  "currentGame u = Some gid \<Longrightarrow> Games w gid = None \<Longrightarrow>
   quitCurrentGame None gameSaveFail userSaveFail now u w = (NoCallback, u, w)"
  by (simp add: quitCurrentGame_def findById_def)

theorem quitCurrentGame_missing_lobby_witness:
  "currentGame (alice\<lparr>currentGame := Some (ObjectId ''c3'')\<rparr>) = Some (ObjectId ''c3'') \<and>
   Games empty_world (ObjectId ''c3'') = None \<and>
   quitCurrentGame None None None 0 (alice\<lparr>currentGame := Some (ObjectId ''c3'')\<rparr>) empty_world
     = (NoCallback, alice\<lparr>currentGame := Some (ObjectId ''c3'')\<rparr>, empty_world)"
  using quitCurrentGame_missing_lobby
    [of "alice\<lparr>currentGame := Some (ObjectId ''c3'')\<rparr>" "ObjectId ''c3''" empty_world None None 0]
  by (simp add: empty_world_def)

section \<open>Membership: joining\<close>

lemma toHexString_eq_iff: "toHexString a = toHexString b \<longleftrightarrow> a = b"
  by (cases a; cases b) simp

lemma idstr_in_roster_iff:
  "user_idstr u \<in> set (map toHexString (players g)) \<longleftrightarrow> user_id u \<in> set (players g)"
  by (auto simp: user_idstr_def toHexString_eq_iff)

lemma getJoinError_cases:
  "getJoinError g u =
     (if \<not> isJoinable g \<and> \<not> isSinglePlayer g then Some LobbyUnavailable
      else if user_id u \<in> set (players g) then Some AlreadyInGame else None)"
  using idstr_in_roster_iff [of u g] by (simp add: getJoinError_def)

lemma joinGame_passes:
  assumes "getJoinError g u = None"
  shows "(\<exists>g'. fst (joinGame gameSaveFail userSaveFail now u g w) = Inr g')
           \<longleftrightarrow> gameSaveFail = None \<and> userSaveFail = None"
proof -
  obtain e g' w1 where a: "addPlayer gameSaveFail now (u\<lparr>currentGame := Some (game_id g)\<rparr>) g w
      = (e, g', w1)"
    by (cases "addPlayer gameSaveFail now (u\<lparr>currentGame := Some (game_id g)\<rparr>) g w") auto
  have e: "e = None \<longleftrightarrow> gameSaveFail = None"
    using a
    by (cases gameSaveFail)
       (auto simp: addPlayer_def updateGameState_def split: prod.splits)
  show ?thesis
    using assms a e
    by (cases e; cases userSaveFail) (auto simp: joinGame_def Let_def)
qed

lemma joinGame_user:
  assumes "getJoinError g u = None"
  shows "fst (snd (joinGame gameSaveFail userSaveFail now u g w))
           = u\<lparr>currentGame := Some (game_id g)\<rparr>"
  using assms
  by (cases "addPlayer gameSaveFail now (u\<lparr>currentGame := Some (game_id g)\<rparr>) g w")
     (auto simp: joinGame_def Let_def split: option.splits)

text \<open>
  C1 (as amended). \<open>joinGame\<close> fails with \<open>LobbyUnavailable\<close> whenever the game is
  neither joinable nor single-player. When the game is joinable or single-player,
  \<open>joinGame\<close> fails with \<open>AlreadyInGame\<close> whenever the player's id is in the game's
  \<open>players\<close>. \<open>joinGame\<close> succeeds only when neither condition holds; and for a player
  with no current game it does succeed then, provided both saves succeed.
\<close>

theorem joinGame_errors:
  "(\<not> isJoinable g \<and> \<not> isSinglePlayer g \<longrightarrow>
      fst (joinGame gameSaveFail userSaveFail now u g w) = Inl LobbyUnavailable)
   \<and> ((isJoinable g \<or> isSinglePlayer g) \<and> user_id u \<in> set (players g) \<longrightarrow>
      fst (joinGame gameSaveFail userSaveFail now u g w) = Inl AlreadyInGame)
   \<and> ((\<exists>g'. fst (joinGame gameSaveFail userSaveFail now u g w) = Inr g') \<longrightarrow>
      (isJoinable g \<or> isSinglePlayer g) \<and> user_id u \<notin> set (players g))
   \<and> ((isJoinable g \<or> isSinglePlayer g) \<and> user_id u \<notin> set (players g) \<and>
       currentGame u = None \<and> gameSaveFail = None \<and> userSaveFail = None \<longrightarrow>
      (\<exists>g'. fst (joinGame gameSaveFail userSaveFail now u g w) = Inr g'))"
proof (cases "getJoinError g u")
  case None
  then have ok: "(isJoinable g \<or> isSinglePlayer g) \<and> user_id u \<notin> set (players g)"
    by (auto simp: getJoinError_cases split: if_splits)
  show ?thesis
    using ok joinGame_passes [OF None, of gameSaveFail userSaveFail now w] by auto
next
  case (Some e)
  then have f: "fst (joinGame gameSaveFail userSaveFail now u g w) = Inl e"
    by (simp add: joinGame_def)
  show ?thesis
    using Some f by (auto simp: getJoinError_cases split: if_splits)
qed

theorem joinGame_errors_witness:
  "\<not> isJoinable lobby1_closed \<and> \<not> isSinglePlayer lobby1_closed
   \<and> fst (joinGame None None 0 bob lobby1_closed empty_world) = Inl LobbyUnavailable
   \<and> isJoinable lobby1 \<and> user_id alice \<in> set (players lobby1)
   \<and> fst (joinGame None None 0 alice lobby1 empty_world) = Inl AlreadyInGame
   \<and> user_id bob \<notin> set (players lobby1) \<and> currentGame bob = None
   \<and> (\<exists>g'. fst (joinGame None None 0 bob lobby1 empty_world) = Inr g')"
  using joinGame_errors [of lobby1_closed None None 0 bob empty_world]
    joinGame_errors [of lobby1 None None 0 alice empty_world]
    joinGame_errors [of lobby1 None None 0 bob empty_world]
  by (simp add: lobby1_closed_def lobby1_def ex_defs)

text \<open>
  The claim as stated fails twice. A player whose \<open>currentGame\<close> is set joins another
  joinable game: \<open>joinGame\<close> does not look at \<open>currentGame\<close> and succeeds, overwriting it.
  And a player already in the roster of a game that is closed and multi-player gets
  \<open>LobbyUnavailable\<close>, not \<open>AlreadyInGame\<close>: the availability test comes first.
\<close>

theorem joinGame_counterexample:
  "currentGame (bob\<lparr>currentGame := Some (ObjectId ''e5'')\<rparr>) = Some (ObjectId ''e5'')
   \<and> \<not> isl (fst (joinGame None None 0 (bob\<lparr>currentGame := Some (ObjectId ''e5'')\<rparr>) lobby1
                    empty_world))
   \<and> currentGame (fst (snd (joinGame None None 0 (bob\<lparr>currentGame := Some (ObjectId ''e5'')\<rparr>)
                    lobby1 empty_world))) = Some (ObjectId ''c3'')
   \<and> user_id alice \<in> set (players lobby1_closed)
   \<and> fst (joinGame None None 0 alice lobby1_closed empty_world) = Inl LobbyUnavailable
   \<and> LobbyUnavailable \<noteq> AlreadyInGame"
proof -
  have e: "getJoinError lobby1 (bob\<lparr>currentGame := Some (ObjectId ''e5'')\<rparr>) = None"
    by (simp add: getJoinError_cases lobby1_def ex_defs)
  have "\<exists>g'. fst (joinGame None None 0 (bob\<lparr>currentGame := Some (ObjectId ''e5'')\<rparr>) lobby1
                    empty_world) = Inr g'"
    using joinGame_passes [OF e, of None None 0 empty_world] by simp
  then have a: "\<not> isl (fst (joinGame None None 0 (bob\<lparr>currentGame := Some (ObjectId ''e5'')\<rparr>)
                    lobby1 empty_world))"
    by auto
  have b: "currentGame (fst (snd (joinGame None None 0
               (bob\<lparr>currentGame := Some (ObjectId ''e5'')\<rparr>) lobby1 empty_world)))
             = Some (ObjectId ''c3'')"
    by (subst joinGame_user [OF e]) (simp add: lobby1_def ex_defs)
  have c: "fst (joinGame None None 0 alice lobby1_closed empty_world) = Inl LobbyUnavailable"
    by (simp add: joinGame_def getJoinError_cases lobby1_closed_def lobby1_def ex_defs)
  show ?thesis
    using a b c
    by (simp add: LobbyUnavailable_def AlreadyInGame_def lobby1_closed_def lobby1_def ex_defs)
qed

text \<open>The guard that \<open>joinGame\<close> lacks is in \<open>createGame\<close>.\<close>

lemma createGame_current_game:
  "currentGame u = Some c \<Longrightarrow>
   createGame fresh gameSaveFail userSaveFail now u opts w = (Inl AlreadyInGame, u, w)"
  by (simp add: createGame_def)

section \<open>Statistics: the derived fields of a result\<close>

text \<open>In exact arithmetic the product that the code computes is the quotient.\<close>

lemma jmul_jdiv_one: "jmul x (jdiv (Num 1) y) = jdiv x y"
  by (cases x; cases y) (auto simp: zero_less_divide_1_iff not_less)

lemmas setter_defs = set_time_def set_typeables_def set_speed_def set_percentUnproductive_def
  castFails_def


lemma deriveStats_time:
  assumes "time st = Num t" and "startTime g = Some s"
  shows "time (deriveStats now g ex st) =
     Num (if \<bar>real_of_int (now - s) - t\<bar> \<le> 100 then t else real_of_int (now - s))"
  using assms
  by (simp add: deriveStats_def setter_defs realTime_def jsub_def
      STATISTICS_VALIDATION_THRESHOLD_MS_def Let_def not_less)

lemma deriveStats_typeables:
  "exercise_typeables ex \<noteq> NaN \<Longrightarrow> typeables (deriveStats now g ex st) = exercise_typeables ex"
  by (simp add: deriveStats_def setter_defs Let_def)

lemma deriveStats_speed:
  "speed (deriveStats now g ex st) =
     (if jmul (jdiv (typeables (deriveStats now g ex st)) (Num 5))
              (jdiv (Num 1) (jdiv (time (deriveStats now g ex st)) (Num 60000))) = NaN
      then speed st
      else jmul (jdiv (typeables (deriveStats now g ex st)) (Num 5))
                (jdiv (Num 1) (jdiv (time (deriveStats now g ex st)) (Num 60000))))"
  by (simp add: deriveStats_def setter_defs CHARACTERS_PER_WORD_def MILLISECONDS_PER_MINUTE_def
      Let_def)

lemma deriveStats_percentUnproductive:
  "percentUnproductive (deriveStats now g ex st) =
     (if jsub (Num 1) (jdiv (typeables (deriveStats now g ex st)) (keystrokes st)) = NaN
      then percentUnproductive st
      else jsub (Num 1) (jdiv (typeables (deriveStats now g ex st)) (keystrokes st)))"
  by (simp add: deriveStats_def setter_defs Let_def)

lemma deriveStats_finite:
  assumes "time (deriveStats now g ex st) = Num T" and "T \<noteq> 0"
    and "exercise_typeables ex = Num n"
  shows "typeables (deriveStats now g ex st) = Num n"
    and "speed (deriveStats now g ex st) = Num ((n / 5) / (T / 60000))"
    and "keystrokes st = Num k \<Longrightarrow> k \<noteq> 0 \<Longrightarrow>
         percentUnproductive (deriveStats now g ex st) = Num (1 - n / k)"
proof -
  show n: "typeables (deriveStats now g ex st) = Num n"
    using assms(3) by (simp add: deriveStats_typeables)
  show "speed (deriveStats now g ex st) = Num ((n / 5) / (T / 60000))"
    using assms(1,2) n by (subst deriveStats_speed) simp
  show "keystrokes st = Num k \<Longrightarrow> k \<noteq> 0 \<Longrightarrow>
         percentUnproductive (deriveStats now g ex st) = Num (1 - n / k)"
    using n by (subst deriveStats_percentUnproductive) (simp add: jsub_def)
qed









section \<open>Statistics: the winner record\<close>

lemma Game_updateStatistics_game:
  "fst (snd (Game_updateStatistics saveFail st g w)) =
     (if \<not> strictEq (winnerTime g) (time st) \<and>
         strictEq (Math_min (jor (winnerTime g) Infinity) (jor (time st) Infinity)) (time st)
      then g\<lparr>winner := Some (player st), winnerTime := time st, winnerSpeed := speed st\<rparr>
      else g)"
  by (cases saveFail) (simp_all add: Game_updateStatistics_def Let_def)

lemma winner_test_nonzero:
  "t \<noteq> 0 \<Longrightarrow>
   (\<not> strictEq x (Num t) \<and>
    strictEq (Math_min (jor x Infinity) (jor (Num t) Infinity)) (Num t))
   \<longleftrightarrow> (\<not> truthy x \<or> jgt x (Num t))"
  by (cases x) (auto simp: strictEq_def jor_def)

lemma winner_test_zero:
  "\<not> strictEq (Math_min (jor x Infinity) (jor (Num 0) Infinity)) (Num 0)"
  by (cases x) (auto simp: strictEq_def jor_def)

text \<open>
  C7 (as amended). For a result whose time is a finite number \<open>t\<close>, the winner record
  of the game is set to the result's player, time and speed if and only if \<open>t\<close> is
  not 0 and either the game has no prior \<open>winnerTime\<close> (it is unset, or 0 or \<open>NaN\<close>,
  which the code treats as unset) or \<open>t\<close> is strictly less than \<open>winnerTime\<close>; a
  result time of 0 never sets the record; when the record is not set, the game is
  unchanged.
\<close>

theorem Game_updateStatistics_winner:
  assumes "time st = Num t"
  shows "fst (snd (Game_updateStatistics saveFail st g w)) =
     (if t \<noteq> 0 \<and> (\<not> truthy (winnerTime g) \<or> jgt (winnerTime g) (Num t))
      then g\<lparr>winner := Some (player st), winnerTime := Num t, winnerSpeed := speed st\<rparr>
      else g)"
proof (cases "t = 0")
  case True
  then show ?thesis
    using assms winner_test_zero [of "winnerTime g"]
    by (simp add: Game_updateStatistics_game)
next
  case False
  then show ?thesis
    using assms winner_test_nonzero [OF False, of "winnerTime g"]
    by (simp add: Game_updateStatistics_game)
qed

theorem Game_updateStatistics_winner_witness:
  "time stats1 = Num 12000
   \<and> winnerTime (fst (snd (Game_updateStatistics None stats1 lobby_started world3))) = Num 12000
   \<and> winner (fst (snd (Game_updateStatistics None stats1 lobby_started world3)))
       = Some (ObjectId ''a1'')
   \<and> fst (snd (Game_updateStatistics None stats1 (lobby_started\<lparr>winnerTime := Num 11000\<rparr>) world3))
       = lobby_started\<lparr>winnerTime := Num 11000\<rparr>
   \<and> winnerTime (fst (snd (Game_updateStatistics None stats1
         (lobby_started\<lparr>winnerTime := Num 13000\<rparr>) world3))) = Num 12000"
proof -
  have a: "time stats1 = Num 12000"
    by (simp add: stats1_def)
  have u: "winnerTime lobby_started = Undefined"
    by (simp add: lobby_started_def lobby2_def start_def setStatus_def ex_defs)
  note r = Game_updateStatistics_winner [OF a, of None _ world3]
  show ?thesis
    using a r [of lobby_started] r [of "lobby_started\<lparr>winnerTime := Num 11000\<rparr>"]
      r [of "lobby_started\<lparr>winnerTime := Num 13000\<rparr>"]
    by (simp add: u stats1_def)
qed

text \<open>
  The claim as stated fails at a result time of 0: with no prior \<open>winnerTime\<close> the
  record is not set (\<open>stats.time || Infinity\<close> turns the 0 into \<open>Infinity\<close>).
\<close>

theorem Game_updateStatistics_zero_counterexample:
  "time (stats1\<lparr>time := Num 0\<rparr>) = Num 0
   \<and> winnerTime lobby_started = Undefined
   \<and> Game_updateStatistics None (stats1\<lparr>time := Num 0\<rparr>) lobby_started world3
       = (None, lobby_started, world3)
   \<and> winner lobby_started = None"
  by (simp add: Game_updateStatistics_def strictEq_def jor_def lobby_started_def lobby2_def
      start_def ex_defs)

section \<open>Statistics: the player's lifetime record\<close>

lemma User_updateStatistics_user:
  "fst (snd (User_updateStatistics saveFail st g u w)) =
     u\<lparr>bestTime := Math_min (jor (bestTime u) Infinity) (jor (time st) Infinity),
       bestSpeed := Math_max (jor (bestSpeed u) (Num 0)) (jor (speed st) (Num 0)),
       totalGames := totalGames u + 1,
       totalMultiplayerGames := totalMultiplayerGames u + (if isSinglePlayer g then 0 else 1),
       gamesWon := gamesWon u + (if strictEqString (winner_value g) (user_idstr u) then 1 else 0),
       averageTime :=
         jdiv (jadd (jmul (averageTime u) (Num (real (totalGames u)))) (time st))
              (Num (real (totalGames u + 1))),
       averageSpeed :=
         jdiv (jadd (jmul (averageSpeed u) (Num (real (totalGames u)))) (speed st))
              (Num (real (totalGames u + 1)))\<rparr>"
  by (cases saveFail) (simp_all add: User_updateStatistics_def Let_def user_idstr_def)

text \<open>
  \<open>game.winner === user.id\<close> compares an ObjectId object (or \<open>undefined\<close>) with a
  string: it never holds, so \<open>gamesWon\<close> is never incremented.
\<close>

lemma winner_never_equals_id: "\<not> strictEqString (winner_value g) s"
  by (cases "winner g") (simp_all add: winner_value_def)

lemma gamesWon_unchanged:
  "gamesWon (fst (snd (User_updateStatistics saveFail st g u w))) = gamesWon u"
  by (simp add: User_updateStatistics_user winner_never_equals_id)

text \<open>
  C8 (as amended). For a result whose time is a number \<open>t\<close> other than 0 and whose
  speed is a number \<open>v\<close>: \<open>bestTime\<close> becomes the minimum of the previous \<open>bestTime\<close>
  (or \<open>+\<infinity>\<close>) and \<open>t\<close>; \<open>bestSpeed\<close> becomes the maximum of the previous \<open>bestSpeed\<close>
  (or 0) and \<open>v\<close>; \<open>totalGames\<close> increases by 1; \<open>totalMultiplayerGames\<close> increases by
  1 exactly when the game is not single-player; \<open>averageTime\<close> and \<open>averageSpeed\<close>
  become \<open>(avg * (totalGames - 1) + newValue) / totalGames\<close> with the incremented
  \<open>totalGames\<close>. (Nothing is said of \<open>gamesWon\<close>.)
\<close>

theorem User_updateStatistics_fields:
  assumes "time st = Num t" and "t \<noteq> 0" and "speed st = Num v"
  shows "bestTime (fst (snd (User_updateStatistics saveFail st g u w))) =
       Math_min (jor (bestTime u) Infinity) (Num t)
   \<and> bestSpeed (fst (snd (User_updateStatistics saveFail st g u w))) =
       Math_max (jor (bestSpeed u) (Num 0)) (Num v)
   \<and> totalGames (fst (snd (User_updateStatistics saveFail st g u w))) = totalGames u + 1
   \<and> totalMultiplayerGames (fst (snd (User_updateStatistics saveFail st g u w))) =
       totalMultiplayerGames u + (if isSinglePlayer g then 0 else 1)
   \<and> averageTime (fst (snd (User_updateStatistics saveFail st g u w))) =
       jdiv (jadd (jmul (averageTime u)
                        (Num (real (totalGames (fst (snd (User_updateStatistics saveFail st g u w))) - 1))))
                  (Num t))
            (Num (real (totalGames (fst (snd (User_updateStatistics saveFail st g u w))))))
   \<and> averageSpeed (fst (snd (User_updateStatistics saveFail st g u w))) =
       jdiv (jadd (jmul (averageSpeed u)
                        (Num (real (totalGames (fst (snd (User_updateStatistics saveFail st g u w))) - 1))))
                  (Num v))
            (Num (real (totalGames (fst (snd (User_updateStatistics saveFail st g u w))))))
   \<and> (\<forall>a b. averageTime u = Num a \<and> averageSpeed u = Num b \<longrightarrow>
         averageTime (fst (snd (User_updateStatistics saveFail st g u w))) =
           Num ((a * real (totalGames u) + t) / real (totalGames u + 1)) \<and>
         averageSpeed (fst (snd (User_updateStatistics saveFail st g u w))) =
           Num ((b * real (totalGames u) + v) / real (totalGames u + 1)))"
  using assms
  by (simp add: User_updateStatistics_user jor_def)

theorem User_updateStatistics_fields_witness:
  "time (deriveStats 32050 lobby_started exercise100 stats1) = Num 12000
   \<and> speed (deriveStats 32050 lobby_started exercise100 stats1) = Num 100
   \<and> bestTime (fst (snd (User_updateStatistics None
        (deriveStats 32050 lobby_started exercise100 stats1) lobby_started alice world3)))
       = Num 12000
   \<and> bestSpeed (fst (snd (User_updateStatistics None
        (deriveStats 32050 lobby_started exercise100 stats1) lobby_started alice world3)))
       = Num 100
   \<and> totalGames (fst (snd (User_updateStatistics None
        (deriveStats 32050 lobby_started exercise100 stats1) lobby_started alice world3))) = 1
   \<and> totalMultiplayerGames (fst (snd (User_updateStatistics None
        (deriveStats 32050 lobby_started exercise100 stats1) lobby_started alice world3))) = 1
   \<and> averageTime (fst (snd (User_updateStatistics None
        (deriveStats 32050 lobby_started exercise100 stats1) lobby_started alice world3)))
       = Num 12000
   \<and> averageSpeed (fst (snd (User_updateStatistics None
        (deriveStats 32050 lobby_started exercise100 stats1) lobby_started alice world3)))
       = Num 100"
proof -
  have a: "time stats1 = Num 12000"
    by (simp add: stats1_def)
  have b: "startTime lobby_started = Some 20000"
    by (simp add: lobby_started_def lobby2_def start_def setStatus_def)
  have t: "time (deriveStats 32050 lobby_started exercise100 stats1) = Num 12000"
    using deriveStats_time [OF a b, of 32050 exercise100] by simp
  have v: "speed (deriveStats 32050 lobby_started exercise100 stats1) = Num 100"
    using deriveStats_finite(2) [OF t, of 100] by (simp add: exercise100_def)
  have m: "\<not> isSinglePlayer lobby_started"
    by (simp add: lobby_started_def lobby2_def start_def setStatus_def ex_defs)
  have z: "(12000::real) \<noteq> 0"
    by simp
  show ?thesis
    using User_updateStatistics_fields [OF t z v, of None lobby_started alice world3] t v m
    by (simp add: alice_def jor_def)
qed

text \<open>
  The claim as stated fails at a result time of 0, where \<open>bestTime\<close> is not the minimum
  with the result time (\<open>stats.time || Infinity\<close>); and it fails for the winner of the
  game, whose \<open>gamesWon\<close> stays as it was.
\<close>

theorem User_updateStatistics_counterexample:
  "time (stats1\<lparr>time := Num 0, speed := Infinity\<rparr>) = Num 0
   \<and> Math_min (jor (bestTime alice) Infinity) (Num 0) = Num 0
   \<and> bestTime (fst (snd (User_updateStatistics None (stats1\<lparr>time := Num 0, speed := Infinity\<rparr>)
         lobby_started alice world3))) = Infinity
   \<and> winner (lobby_started\<lparr>winner := Some (user_id alice)\<rparr>) = Some (user_id alice)
   \<and> gamesWon (fst (snd (User_updateStatistics None (stats1\<lparr>speed := Num 100\<rparr>)
         (lobby_started\<lparr>winner := Some (user_id alice)\<rparr>) alice world3))) = gamesWon alice"
  by (simp add: User_updateStatistics_user winner_never_equals_id jor_def alice_def stats1_def)

section \<open>Statistics: the whole submission\<close>

text \<open>
  C9 (the code at the failing input). With the player, the game and its exercise in
  the store and every other store operation succeeding, a failure of \<open>stats.save\<close>
  changes nothing in what the caller is told: the callback gets the success triple,
  and the result is missing from the saved results.
\<close>

theorem result_save_failure_not_surfaced:
  assumes "Users w (player st) = Some u" and "Games w (game st) = Some g"
    and "exercise g = Some x" and "Exercises w x = Some ex"
  shows "(\<exists>r. fst (Stats_updateStatistics None None None (Some e) None None now st w)
              = Called (Inr r))
   \<and> Results (snd (Stats_updateStatistics None None None (Some e) None None now st w))
       = Results w"
  using assms
  by (simp add: Stats_updateStatistics_def findById_def findByRef_def Game_updateStatistics_def
      User_updateStatistics_def Let_def)

theorem result_save_failure_not_surfaced_witness:
  "Users world3 (player stats1) = Some (alice\<lparr>currentGame := Some (ObjectId ''c3'')\<rparr>)
   \<and> Games world3 (game stats1) = Some lobby_started
   \<and> exercise lobby_started = Some (ObjectId ''f6'')
   \<and> Exercises world3 (ObjectId ''f6'') = Some exercise100
   \<and> (\<exists>r. fst (Stats_updateStatistics None None None (Some ''disk full'') None None 32050
                 stats1 world3) = Called (Inr r))
   \<and> Results (snd (Stats_updateStatistics None None None (Some ''disk full'') None None 32050
                 stats1 world3)) = []"
proof -
  have a: "Users world3 (player stats1) = Some (alice\<lparr>currentGame := Some (ObjectId ''c3'')\<rparr>)"
    by (simp add: world3_def world2_def stats1_def empty_world_def)
  have b: "Games world3 (game stats1) = Some lobby_started"
    by (simp add: world3_def world2_def stats1_def empty_world_def)
  have c: "exercise lobby_started = Some (ObjectId ''f6'')"
    by (simp add: lobby_started_def start_def setStatus_def)
  have d: "Exercises world3 (ObjectId ''f6'') = Some exercise100"
    by (simp add: world3_def world2_def empty_world_def)
  have r: "Results world3 = []"
    by (simp add: world3_def world2_def empty_world_def)
  show ?thesis
    using result_save_failure_not_surfaced [OF a b c d, of "''disk full''" 32050] a b c d r
    by simp
qed

text \<open>The two other saves do surface their failure, as \<open>error saving user\<close> here.\<close>

lemma user_save_failure_surfaced:
  assumes "Users w (player st) = Some u" and "Games w (game st) = Some g"
    and "exercise g = Some x" and "Exercises w x = Some ex"
  shows "fst (Stats_updateStatistics None None None statsSaveFail None (Some e) now st w)
           = Called (Inl ''error saving user'')"
  using assms
  by (cases statsSaveFail)
     (simp_all add: Stats_updateStatistics_def findById_def findByRef_def
        Game_updateStatistics_def User_updateStatistics_def Let_def)

end
